theory Spec2Isabelle
  imports Main
begin

unbundle bit_operations_syntax

section \<open>The monster turn engine of melee2.c\<close>

text \<open>
  A shallow embedding of \<^verbatim>\<open>src/monster/melee2.c\<close>. C integers are \<open>int\<close>; where the
  source stores a value in a \<^verbatim>\<open>u16b\<close> or \<^verbatim>\<open>u32b\<close> local the reduction modulo
  \<open>2 ^ 16\<close> or \<open>2 ^ 32\<close> is written out. Services that live in other files of the
  game (random numbers, the cave predicates, the player mutators) are not part of
  this file: every value the code reads from them is an input of the model (an
  \<^emph>\<open>oracle\<close> record), and every call made for its effect is recorded in a trace
  of events.
\<close>

subsection \<open>C arithmetic\<close>

definition u16b :: "int \<Rightarrow> int" where
  "u16b x = x mod 2 ^ 16"

definition u32b :: "int \<Rightarrow> int" where
  "u32b x = x mod 2 ^ 32"

text \<open>C division truncates towards zero.\<close>

definition c_div :: "int \<Rightarrow> int \<Rightarrow> int" where
  "c_div a b = (if (a < 0) = (b < 0) then \<bar>a\<bar> div \<bar>b\<bar> else - (\<bar>a\<bar> div \<bar>b\<bar>))"

subsection \<open>Constants and tables declared outside melee2.c\<close>

text \<open>
  The \<^verbatim>\<open>#define\<close>s and enumeration values the code uses are declared in headers
  that are not part of the source under study; the model takes them as one
  parameter \<open>K\<close>.
\<close>

datatype rbe =
    RBE_NONE | RBE_HURT | RBE_POISON | RBE_UN_BONUS | RBE_UN_POWER | RBE_EAT_GOLD
  | RBE_EAT_ITEM | RBE_EAT_FOOD | RBE_EAT_LIGHT | RBE_ACID | RBE_ELEC | RBE_FIRE
  | RBE_COLD | RBE_BLIND | RBE_CONFUSE | RBE_TERRIFY | RBE_PARALYZE | RBE_LOSE_STR
  | RBE_LOSE_INT | RBE_LOSE_WIS | RBE_LOSE_DEX | RBE_LOSE_CON | RBE_LOSE_ALL
  | RBE_SHATTER | RBE_EXP_10 | RBE_EXP_20 | RBE_EXP_40 | RBE_EXP_80 | RBE_HALLU
  | RBE_OUT_OF_RANGE

record constants =
  MAX_SIGHT :: int
  MAX_RANGE :: int
  MONSTER_FLOW_DEPTH :: int
  MON_MULT_ADJ :: int
  MAX_REPRO :: int
  BREAK_GLYPH :: int
  MAX_PVAL :: int
  MAX_UCHAR :: int
  MAX_SHORT :: int
  INVEN_PACK :: int
  FLAG_START :: nat
  RSF_MAX :: nat
  MIN_NONINNATE_SPELL :: nat
  RSF_HEAL :: nat
  RSF_HASTE :: nat
  RSF_TELE_TO :: nat
  RSF_DRAIN_MANA :: nat
  SM_IMM_MANA :: int
  MONSTER_BLOW_MAX :: nat
  RBM_MAX :: int
  INVEN_LIGHT :: int
  MON_DRAIN_LIFE :: int
  effect_powers :: "rbe \<Rightarrow> int"
  blow_cuts :: "int \<Rightarrow> bool"
  blow_stuns :: "int \<Rightarrow> bool"
  blow_misses :: "int \<Rightarrow> bool"
  blow_physicals :: "int \<Rightarrow> bool"
  blow_messages :: "int \<Rightarrow> int"
  adj_dex_safe :: "int \<Rightarrow> int"

subsection \<open>Data model\<close>

datatype rf =
    RF_STUPID | RF_SMART | RF_NEVER_BLOW | RF_NEVER_MOVE | RF_MULTIPLY
  | RF_RAND_25 | RF_RAND_50 | RF_PASS_WALL | RF_KILL_WALL | RF_OPEN_DOOR
  | RF_BASH_DOOR | RF_KILL_BODY | RF_MOVE_BODY | RF_TAKE_ITEM | RF_KILL_ITEM
  | RF_HAS_LIGHT | RF_EVIL

datatype mon_tmd =
  MON_TMD_SLEEP | MON_TMD_FAST | MON_TMD_SLOW | MON_TMD_STUN | MON_TMD_CONF | MON_TMD_FEAR

record monster_blow =
  blow_method :: int
  effect :: rbe
  d_dice :: int
  d_side :: int

record monster_race =
  level :: int
  aaf :: int
  mexp :: int
  freq_innate :: int
  freq_spell :: int
  flags :: "rf set"
  spell_flags :: "nat set"
  blow :: "nat \<Rightarrow> monster_blow"

datatype mflag = MFLAG_NICE | MFLAG_VIEW

record monster =
  race :: monster_race
  midx :: int
  fy :: int
  fx :: int
  hp :: int
  maxhp :: int
  m_timed :: "mon_tmd \<Rightarrow> int"
  cdis :: int
  energy :: int
  mflag :: "mflag set"
  ml :: bool
  unaware :: bool
  smart :: int
  known_pflags :: "nat set"

datatype tval = TV_GOLD | TV_STAFF | TV_WAND | TV_FOOD | TV_OTHER

datatype origin = ORIGIN_NONE | ORIGIN_STOLEN | ORIGIN_OTHER

datatype tmd =
    TMD_BLIND | TMD_PARALYZED | TMD_PROTEVIL | TMD_POISONED | TMD_CONFUSED
  | TMD_AFRAID | TMD_IMAGE | TMD_CUT | TMD_STUN

datatype stat = A_STR | A_INT | A_WIS | A_DEX | A_CON

datatype gf = GF_ACID | GF_ELEC | GF_FIRE | GF_COLD | GF_POIS | GF_DISEN | GF_CHAOS

datatype pr = PR_HEALTH | PR_INVEN | PR_GOLD | PR_EQUIP

datatype pn = PN_COMBINE | PN_REORDER

datatype pu = PU_UPDATE_VIEW | PU_MONSTERS | PU_FORGET_FLOW | PU_UPDATE_FLOW

record object_kind =
  k_level :: int

text \<open>An object; \<open>kind = None\<close> is the \<^verbatim>\<open>NULL\<close> kind pointer of an empty slot.\<close>

record object_type =
  kind :: "object_kind option"
  tval :: tval
  pval :: int
  number :: int
  artifact :: bool
  origin :: origin
  timeout :: int

record player =
  lev :: int
  chp :: int
  mhp :: int
  au :: int
  exp :: int
  py :: int
  px :: int
  timed :: "tmd \<Rightarrow> int"
  inventory :: "int \<Rightarrow> object_type"
  ac :: int
  to_a :: int
  stat_ind :: "stat \<Rightarrow> int"
  skill_save :: int
  health_who :: int
  redraw :: "pr set"
  notice :: "pn set"
  update :: "pu set"

text \<open>
  Monster lore: the saturating counters and the learned flags. \<open>blows\<close> is the
  array \<^verbatim>\<open>l_ptr->blows[]\<close>.
\<close>

record lore =
  blows :: "nat \<Rightarrow> int"
  deaths :: int
  cast_innate :: int
  cast_spell :: int
  wake :: int
  ignore :: int
  l_flags :: "rf set"
  l_spell_flags :: "nat set"

text \<open>
  Calls made for their effect on the rest of the game. A message records its
  format string; \<open>Ext\<close> records the name of any other service with its integer
  arguments.
\<close>

datatype event =
    Msg string
  | Take_hit int
  | Monster_carry object_type
  | Earthquake int int int
  | Teleport_away int
  | Inven_damage gf int
  | Player_inc_timed tmd int
  | Ext string "int list"

definition rf_has :: "rf set \<Rightarrow> rf \<Rightarrow> bool" where
  "rf_has f x = (x \<in> f)"

subsection \<open>mon_will_run\<close>

text \<open>
  \<open>pl\<close> is the player \<^verbatim>\<open>p_ptr\<close>. The locals \<^verbatim>\<open>p_lev .. m_mhp\<close> are \<^verbatim>\<open>u16b\<close>,
  \<^verbatim>\<open>p_val\<close> and \<^verbatim>\<open>m_val\<close> are \<^verbatim>\<open>u32b\<close>; the two products of the last comparison
  are computed in \<^verbatim>\<open>u32b\<close> and wrap modulo \<open>2 ^ 32\<close>. The comparisons
  \<^verbatim>\<open>m_lev > p_lev + 4\<close> and \<^verbatim>\<open>m_lev + 4 <= p_lev\<close> are made after promotion to
  \<^verbatim>\<open>int\<close> and do not wrap.
\<close>

definition mon_will_run :: "constants \<Rightarrow> player \<Rightarrow> monster \<Rightarrow> bool" where
  "mon_will_run K pl m =
    (if cdis m > MAX_SIGHT K + 5 then False
     else if m_timed m MON_TMD_FEAR \<noteq> 0 then True
     else if cdis m \<le> 5 then False
     else
       let p_lev = u16b (lev pl);
           m_lev = u16b (level (race m) + (midx m AND 8) + 25)
       in if m_lev > p_lev + 4 then False
          else if m_lev + 4 \<le> p_lev then True
          else
            let p_chp = u16b (chp pl); p_mhp = u16b (mhp pl);
                m_chp = u16b (hp m); m_mhp = u16b (maxhp m);
                p_val = u32b (p_lev * p_mhp + push_bit 2 p_chp);
                m_val = u32b (m_lev * m_mhp + push_bit 2 m_chp)
            in u32b (p_val * m_mhp) > u32b (m_val * p_mhp))"

text \<open>The decision as the specification words it, over the unbounded integers.\<close>

definition will_run_spec :: "constants \<Rightarrow> player \<Rightarrow> monster \<Rightarrow> bool" where
  "will_run_spec K pl m =
    (if cdis m > MAX_SIGHT K + 5 then False
     else if m_timed m MON_TMD_FEAR > 0 then True
     else if cdis m \<le> 5 then False
     else
       let m_lev = level (race m) + (midx m AND 8) + 25;
           p_val = lev pl * mhp pl + 4 * chp pl;
           m_val = m_lev * maxhp m + 4 * hp m
       in p_val * maxhp m > m_val * mhp pl)"

subsection \<open>Melee blows: context, inputs and shared helpers\<close>

text \<open>
  \<^verbatim>\<open>melee_effect_handler_context_t\<close>. The pointers \<^verbatim>\<open>p\<close> and \<^verbatim>\<open>m_ptr\<close> become the
  player and the monster themselves: a handler returns the context with both as
  it leaves them. The description string \<^verbatim>\<open>ddesc\<close> is not modelled.
\<close>

record melee_ctx =
  c_p :: player
  c_m_ptr :: monster
  c_rlev :: int
  c_method :: int
  c_ac :: int
  c_obvious :: bool
  c_blinked :: bool
  c_do_break :: bool
  c_damage :: int

text \<open>
  What one blow reads from the services outside melee2.c: the random draws and
  the answers of the player and cave routines, each named after the call that
  yields it.
\<close>

record blow_env =
  e_leaving :: bool
  e_test_hit :: "int \<Rightarrow> int \<Rightarrow> bool"
  e_roll_protevil :: int
  e_action :: "string option"
  e_damroll :: int
  e_adjust_dam :: int
  e_roll_save :: int
  e_inc_timed :: bool
  e_randint1 :: int
  e_res_disen :: bool
  e_apply_disenchant :: bool
  e_dec_stat :: "stat \<Rightarrow> bool"
  e_hold_life :: bool
  e_roll_hold :: int
  e_exp_damroll :: int
  e_pick :: "nat \<Rightarrow> int"
  e_roll_blink :: int
  e_roll_gold25 :: int
  e_roll_gold3000 :: int
  e_gold_prep :: object_type
  e_no_fuel :: bool
  e_roll_fuel :: int
  e_quake_py :: int
  e_quake_px :: int
  e_roll_cutstun :: int
  e_critical :: int
  e_roll_k :: int

type_synonym handler_result = "(melee_ctx \<times> event list) option"

definition adjust_dam_armor :: "int \<Rightarrow> int \<Rightarrow> int" where
  "adjust_dam_armor damage a = damage - c_div (damage * (if a < 240 then a else 240)) 400"

definition monster_blow_effect_power :: "constants \<Rightarrow> rbe \<Rightarrow> int" where
  "monster_blow_effect_power K e = (if e = RBE_OUT_OF_RANGE then 0 else effect_powers K e)"

definition monster_blow_method_cut :: "constants \<Rightarrow> int \<Rightarrow> bool" where
  "monster_blow_method_cut K meth = (if meth < 0 \<or> meth \<ge> RBM_MAX K then False else blow_cuts K meth)"

definition monster_blow_method_stun :: "constants \<Rightarrow> int \<Rightarrow> bool" where
  "monster_blow_method_stun K meth = (if meth < 0 \<or> meth \<ge> RBM_MAX K then False else blow_stuns K meth)"

definition monster_blow_method_miss :: "constants \<Rightarrow> int \<Rightarrow> bool" where
  "monster_blow_method_miss K meth = (if meth < 0 \<or> meth \<ge> RBM_MAX K then False else blow_misses K meth)"

definition monster_blow_method_physical :: "constants \<Rightarrow> int \<Rightarrow> bool" where
  "monster_blow_method_physical K meth =
     (if meth < 0 \<or> meth \<ge> RBM_MAX K then False else blow_physicals K meth)"

definition melee_effect_elemental ::
  "constants \<Rightarrow> blow_env \<Rightarrow> melee_ctx \<Rightarrow> gf \<Rightarrow> bool \<Rightarrow> melee_ctx \<times> event list" where
  "melee_effect_elemental K E c type pure_element =
    (let c1 = (if pure_element then c\<lparr>c_obvious := True\<rparr> else c);
         ev1 = (case type of
                  GF_ACID \<Rightarrow> [Msg ''You are covered in acid!'']
                | GF_ELEC \<Rightarrow> [Msg ''You are struck by electricity!'']
                | GF_FIRE \<Rightarrow> [Msg ''You are enveloped in flames!'']
                | GF_COLD \<Rightarrow> [Msg ''You are covered with frost!'']
                | _ \<Rightarrow> []);
         physical_dam = (if \<not> monster_blow_method_physical K (c_method c1) then 0
                         else adjust_dam_armor (c_damage c1) (c_ac c1 + 50));
         elemental_dam = e_adjust_dam E;
         c2 = c1\<lparr>c_damage := (if physical_dam > elemental_dam then physical_dam else elemental_dam)\<rparr>;
         ev2 = (if c_damage c2 > 0 then [Take_hit (c_damage c2)] else []);
         ev3 = (if elemental_dam > 0
                then [Inven_damage type (min (elemental_dam * 5) 300)] else []);
         ev4 = (if pure_element then [Ext ''monster_learn_resists'' []] else [])
     in (c2, ev1 @ ev2 @ ev3 @ ev4))"

definition melee_effect_timed ::
  "blow_env \<Rightarrow> melee_ctx \<Rightarrow> tmd \<Rightarrow> int \<Rightarrow> bool \<Rightarrow> string option \<Rightarrow> melee_ctx \<times> event list" where
  "melee_effect_timed E c type amount attempt_save save_msg =
    (if attempt_save \<and> e_roll_save E < skill_save (c_p c)
     then (c\<lparr>c_obvious := True\<rparr>,
           [Take_hit (c_damage c)] @ (case save_msg of None \<Rightarrow> [] | Some s \<Rightarrow> [Msg s])
             @ [Ext ''update_smart_learn'' []])
     else ((if e_inc_timed E then c\<lparr>c_obvious := True\<rparr> else c),
           [Take_hit (c_damage c), Player_inc_timed type amount, Ext ''update_smart_learn'' []]))"

definition melee_effect_stat :: "blow_env \<Rightarrow> melee_ctx \<Rightarrow> stat \<Rightarrow> melee_ctx \<times> event list" where
  "melee_effect_stat E c st =
    ((if e_dec_stat E st then c\<lparr>c_obvious := True\<rparr> else c),
     [Take_hit (c_damage c), Ext ''do_dec_stat'' []])"

definition melee_effect_experience ::
  "constants \<Rightarrow> blow_env \<Rightarrow> melee_ctx \<Rightarrow> int \<Rightarrow> int \<Rightarrow> melee_ctx \<times> event list" where
  "melee_effect_experience K E c chance drain_amount =
    (let ev = [Take_hit (c_damage c), Ext ''update_smart_learn'' []] in
     if e_hold_life E \<and> e_roll_hold E < chance
     then (c\<lparr>c_obvious := True\<rparr>, ev @ [Msg ''You keep hold of your life force!''])
     else
       let d = drain_amount + c_div (exp (c_p c)) 100 * MON_DRAIN_LIFE K in
       if e_hold_life E
       then (c\<lparr>c_obvious := True\<rparr>,
             ev @ [Msg ''You feel your life slipping away!'', Ext ''player_exp_lose'' [c_div d 10]])
       else (c\<lparr>c_obvious := True\<rparr>,
             ev @ [Msg ''You feel your life draining away!'', Ext ''player_exp_lose'' [d]]))"

subsection \<open>The effect handlers\<close>

definition melee_effect_handler_none :: "melee_ctx \<Rightarrow> melee_ctx \<times> event list" where
  "melee_effect_handler_none c = (c\<lparr>c_obvious := True, c_damage := 0\<rparr>, [])"

definition melee_effect_handler_hurt :: "melee_ctx \<Rightarrow> melee_ctx \<times> event list" where
  "melee_effect_handler_hurt c =
    (let c1 = c\<lparr>c_obvious := True, c_damage := adjust_dam_armor (c_damage c) (c_ac c)\<rparr>
     in (c1, [Take_hit (c_damage c1)]))"

definition melee_effect_handler_poison ::
  "constants \<Rightarrow> blow_env \<Rightarrow> melee_ctx \<Rightarrow> melee_ctx \<times> event list" where
  "melee_effect_handler_poison K E c =
    (let (c1, ev) = melee_effect_elemental K E c GF_POIS False
     in ((if e_inc_timed E then c1\<lparr>c_obvious := True\<rparr> else c1),
         ev @ [Player_inc_timed TMD_POISONED (5 + e_randint1 E),
               Ext ''monster_learn_resists'' []]))"

definition melee_effect_handler_disenchant :: "blow_env \<Rightarrow> melee_ctx \<Rightarrow> melee_ctx \<times> event list" where
  "melee_effect_handler_disenchant E c =
    (if \<not> e_res_disen E
     then ((if e_apply_disenchant E then c\<lparr>c_obvious := True\<rparr> else c),
           [Take_hit (c_damage c), Ext ''apply_disenchant'' [0], Ext ''monster_learn_resists'' []])
     else (c, [Take_hit (c_damage c), Ext ''monster_learn_resists'' []]))"

text \<open>
  The search loop of the drain-charges handler: \<open>tries\<close> and \<open>unpower\<close> are the
  locals of the C function, \<open>e_pick E tries\<close> is the slot \<^verbatim>\<open>randint0(INVEN_PACK)\<close>
  draws in that round. The division by \<^verbatim>\<open>kind->level + 2\<close> traps when the divisor
  is zero: the handler then does not return (\<open>None\<close>).
\<close>

function drain_charges_tries ::
  "blow_env \<Rightarrow> nat \<Rightarrow> int \<Rightarrow> melee_ctx \<Rightarrow> event list \<Rightarrow> handler_result" where
  "drain_charges_tries E tries unpower c ev =
    (if tries < 10 then
       let item = e_pick E tries;
           ob = inventory (c_p c) item
       in (case kind ob of
             None \<Rightarrow> drain_charges_tries E (tries + 1) unpower c ev
           | Some k \<Rightarrow>
               let charged = ((tval ob = TV_STAFF \<or> tval ob = TV_WAND) \<and> pval ob \<noteq> 0)
               in if charged \<and> k_level k + 2 = 0 then None
                  else
                    let unpower' = (if charged then c_div (c_rlev c) (k_level k + 2) + 1
                                    else unpower);
                        newcharge = max (pval ob - unpower') 0;
                        c' = (if charged
                              then c\<lparr>c_p := (c_p c)\<lparr>inventory :=
                                     (inventory (c_p c))(item := ob\<lparr>pval := newcharge\<rparr>)\<rparr>\<rparr>
                              else c)
                    in if unpower' \<noteq> 0 then
                         let mon = c_m_ptr c';
                             heal = min (c_rlev c' * unpower') (maxhp mon - hp mon);
                             pl = c_p c';
                             pl' = pl\<lparr>redraw := (if health_who pl = midx mon
                                                  then insert PR_HEALTH (redraw pl)
                                                  else redraw pl) \<union> {PR_INVEN},
                                       notice := notice pl \<union> {PN_COMBINE, PN_REORDER}\<rparr>
                         in Some (c'\<lparr>c_obvious := True,
                                      c_m_ptr := mon\<lparr>hp := hp mon + heal\<rparr>,
                                      c_p := pl'\<rparr>,
                                  ev @ [Msg ''Energy drains from your pack!''])
                       else drain_charges_tries E (tries + 1) unpower' c' ev)
     else Some (c, ev))"
  by pat_completeness auto
termination
  by (relation "measure (\<lambda>(E, tries, unpower, c, ev). 10 - tries)") auto

definition melee_effect_handler_drain_charges :: "blow_env \<Rightarrow> melee_ctx \<Rightarrow> handler_result" where
  "melee_effect_handler_drain_charges E c = drain_charges_tries E 0 0 c [Take_hit (c_damage c)]"

text \<open>
  The loop that turns the stolen gold into objects. \<open>prep\<close> is the object
  \<^verbatim>\<open>object_prep\<close> makes of the gold kind. With \<open>MAX_PVAL \<le> 0\<close> the loop never ends.
\<close>

partial_function (option) carry_gold ::
  "constants \<Rightarrow> object_type \<Rightarrow> int \<Rightarrow> event list \<Rightarrow> event list option" where
  "carry_gold K prep gold ev =
    (if gold > 0 then
       let amt = (if gold > MAX_PVAL K then MAX_PVAL K else gold);
           ob = prep\<lparr>pval := amt, origin := ORIGIN_STOLEN\<rparr>
       in carry_gold K prep (gold - amt) (ev @ [Monster_carry ob])
     else Some ev)"

definition melee_effect_handler_eat_gold ::
  "constants \<Rightarrow> blow_env \<Rightarrow> melee_ctx \<Rightarrow> handler_result" where
  "melee_effect_handler_eat_gold K E c =
    (let pl = c_p c;
         ev0 = [Take_hit (c_damage c)];
         c0 = c\<lparr>c_obvious := True\<rparr>
     in if timed pl TMD_PARALYZED = 0 \<and>
           e_roll_save E < adj_dex_safe K (stat_ind pl A_DEX) + lev pl
        then Some ((if e_roll_blink E \<noteq> 0 then c0\<lparr>c_blinked := True\<rparr> else c0),
                   ev0 @ [Msg ''You quickly protect your money pouch!''])
        else
          let g1 = c_div (au pl) 10 + e_roll_gold25 E;
              g2 = (if g1 < 2 then 2 else g1);
              g3 = (if g2 > 5000 then c_div (au pl) 20 + e_roll_gold3000 E else g2);
              gold = (if g3 > au pl then au pl else g3);
              pl1 = pl\<lparr>au := au pl - gold\<rparr>
          in if gold \<le> 0
             then Some (c0\<lparr>c_p := pl1\<rparr>, ev0 @ [Msg ''Nothing was stolen.''])
             else
               let ev1 = ev0 @ [Msg ''Your purse feels lighter.'',
                                if au pl1 \<noteq> 0 then Msg ''%ld coins were stolen!''
                                else Msg ''All of your coins were stolen!'']
               in (case carry_gold K (e_gold_prep E) gold ev1 of
                     None \<Rightarrow> None
                   | Some ev2 \<Rightarrow>
                       Some (c0\<lparr>c_p := pl1\<lparr>redraw := redraw pl1 \<union> {PR_GOLD}\<rparr>,
                                 c_blinked := True\<rparr>, ev2)))"

text \<open>
  The two pack searches below pick the first of the ten draws that lands on a
  suitable slot; the objects handed to \<^verbatim>\<open>distribute_charges\<close>,
  \<^verbatim>\<open>inven_item_increase\<close> and \<^verbatim>\<open>inven_item_optimize\<close> are changed by those
  services, not by this file.
\<close>

definition melee_effect_handler_eat_item ::
  "constants \<Rightarrow> blow_env \<Rightarrow> melee_ctx \<Rightarrow> melee_ctx \<times> event list" where
  "melee_effect_handler_eat_item K E c =
    (let pl = c_p c; ev0 = [Take_hit (c_damage c)]
     in if timed pl TMD_PARALYZED = 0 \<and>
           e_roll_save E < adj_dex_safe K (stat_ind pl A_DEX) + lev pl
        then (c\<lparr>c_blinked := True, c_obvious := True\<rparr>,
              ev0 @ [Msg ''You grab hold of your backpack!''])
        else
          (case find (\<lambda>t. kind (inventory pl (e_pick E t)) \<noteq> None
                          \<and> \<not> artifact (inventory pl (e_pick E t))) [0..<10] of
             None \<Rightarrow> (c, ev0)
           | Some t \<Rightarrow>
               let item = e_pick E t; ob = inventory pl item
               in (c\<lparr>c_obvious := True, c_blinked := True\<rparr>,
                   ev0 @ [Msg ''%s %s (%c) was stolen!'',
                          Ext ''distribute_charges'' [item, 1],
                          Monster_carry (ob\<lparr>number := 1\<rparr>),
                          Ext ''inven_item_increase'' [item, - 1],
                          Ext ''inven_item_optimize'' [item]])))"

definition melee_effect_handler_eat_food :: "blow_env \<Rightarrow> melee_ctx \<Rightarrow> melee_ctx \<times> event list" where
  "melee_effect_handler_eat_food E c =
    (let pl = c_p c; ev0 = [Take_hit (c_damage c)]
     in (case find (\<lambda>t. kind (inventory pl (e_pick E t)) \<noteq> None
                        \<and> tval (inventory pl (e_pick E t)) = TV_FOOD) [0..<10] of
           None \<Rightarrow> (c, ev0)
         | Some t \<Rightarrow>
             let item = e_pick E t; ob = inventory pl item
             in (c\<lparr>c_obvious := True\<rparr>,
                 ev0 @ [if number ob = 1 then Msg ''Your %s (%c) was eaten!''
                        else Msg ''One of your %s (%c) was eaten!'',
                        Ext ''inven_item_increase'' [item, - 1],
                        Ext ''inven_item_optimize'' [item]])))"

definition melee_effect_handler_eat_light ::
  "constants \<Rightarrow> blow_env \<Rightarrow> melee_ctx \<Rightarrow> melee_ctx \<times> event list" where
  "melee_effect_handler_eat_light K E c =
    (let pl = c_p c; ev0 = [Take_hit (c_damage c)];
         ob = inventory pl (INVEN_LIGHT K)
     in if \<not> e_no_fuel E \<and> timeout ob > 0 then
          let t1 = timeout ob - (250 + e_roll_fuel E);
              t2 = (if t1 < 1 then 1 else t1);
              seen = (timed pl TMD_BLIND = 0);
              pl' = pl\<lparr>inventory := (inventory pl)(INVEN_LIGHT K := ob\<lparr>timeout := t2\<rparr>),
                        redraw := redraw pl \<union> {PR_EQUIP}\<rparr>
          in ((if seen then c\<lparr>c_obvious := True, c_p := pl'\<rparr> else c\<lparr>c_p := pl'\<rparr>),
              ev0 @ (if seen then [Msg ''Your light dims.''] else []))
        else (c, ev0))"

definition melee_effect_handler_paralyze :: "blow_env \<Rightarrow> melee_ctx \<Rightarrow> melee_ctx \<times> event list" where
  "melee_effect_handler_paralyze E c =
    (let c1 = (if timed (c_p c) TMD_PARALYZED \<noteq> 0 \<and> c_damage c < 1
               then c\<lparr>c_damage := 1\<rparr> else c)
     in melee_effect_timed E c1 TMD_PARALYZED (3 + e_randint1 E) True
          (Some ''You resist the effects!''))"

definition melee_effect_handler_lose_all :: "blow_env \<Rightarrow> melee_ctx \<Rightarrow> melee_ctx \<times> event list" where
  "melee_effect_handler_lose_all E c =
    ((if e_dec_stat E A_STR \<or> e_dec_stat E A_DEX \<or> e_dec_stat E A_CON
         \<or> e_dec_stat E A_INT \<or> e_dec_stat E A_WIS
      then c\<lparr>c_obvious := True\<rparr> else c),
     [Take_hit (c_damage c), Ext ''do_dec_stat'' [], Ext ''do_dec_stat'' [],
      Ext ''do_dec_stat'' [], Ext ''do_dec_stat'' [], Ext ''do_dec_stat'' []])"

text \<open>
  The shatter handler. \<open>e_quake_py\<close> and \<open>e_quake_px\<close> are the player's position
  as \<^verbatim>\<open>earthquake\<close> leaves it.
\<close>

definition melee_effect_handler_shatter :: "blow_env \<Rightarrow> melee_ctx \<Rightarrow> melee_ctx \<times> event list" where
  "melee_effect_handler_shatter E c =
    (let c1 = c\<lparr>c_obvious := True, c_damage := adjust_dam_armor (c_damage c) (c_ac c)\<rparr>;
         ev = [Take_hit (c_damage c1)]
     in if c_damage c1 > 23 then
          let px_old = px (c_p c1);
              py_old = py (c_p c1);
              c2 = c1\<lparr>c_p := (c_p c1)\<lparr>py := e_quake_py E, px := e_quake_px E\<rparr>\<rparr>;
              ev' = ev @ [Earthquake (fy (c_m_ptr c1)) (fx (c_m_ptr c1)) 8]
          in if px_old \<noteq> px (c_p c2) \<or> py_old \<noteq> py (c_p c2)
             then (c2\<lparr>c_do_break := True\<rparr>, ev')
             else (c2, ev')
        else (c1, ev))"

definition melee_effect_handler_hallucination ::
  "blow_env \<Rightarrow> melee_ctx \<Rightarrow> melee_ctx \<times> event list" where
  "melee_effect_handler_hallucination E c =
    ((if e_inc_timed E then c\<lparr>c_obvious := True\<rparr> else c),
     [Take_hit (c_damage c), Player_inc_timed TMD_IMAGE (3 + e_randint1 E),
      Ext ''monster_learn_resists'' []])"

text \<open>
  \<^verbatim>\<open>melee_handler_for_blow_effect\<close>: the handler table; \<open>None\<close> is the \<^verbatim>\<open>NULL\<close> it
  returns for an effect outside the enumeration.
\<close>

definition melee_handler_for_blow_effect ::
  "rbe \<Rightarrow> (constants \<Rightarrow> blow_env \<Rightarrow> melee_ctx \<Rightarrow> handler_result) option" where
  "melee_handler_for_blow_effect e =
    (case e of
       RBE_NONE \<Rightarrow> Some (\<lambda>K E c. Some (melee_effect_handler_none c))
     | RBE_HURT \<Rightarrow> Some (\<lambda>K E c. Some (melee_effect_handler_hurt c))
     | RBE_POISON \<Rightarrow> Some (\<lambda>K E c. Some (melee_effect_handler_poison K E c))
     | RBE_UN_BONUS \<Rightarrow> Some (\<lambda>K E c. Some (melee_effect_handler_disenchant E c))
     | RBE_UN_POWER \<Rightarrow> Some (\<lambda>K E c. melee_effect_handler_drain_charges E c)
     | RBE_EAT_GOLD \<Rightarrow> Some (\<lambda>K E c. melee_effect_handler_eat_gold K E c)
     | RBE_EAT_ITEM \<Rightarrow> Some (\<lambda>K E c. Some (melee_effect_handler_eat_item K E c))
     | RBE_EAT_FOOD \<Rightarrow> Some (\<lambda>K E c. Some (melee_effect_handler_eat_food E c))
     | RBE_EAT_LIGHT \<Rightarrow> Some (\<lambda>K E c. Some (melee_effect_handler_eat_light K E c))
     | RBE_ACID \<Rightarrow> Some (\<lambda>K E c. Some (melee_effect_elemental K E c GF_ACID True))
     | RBE_ELEC \<Rightarrow> Some (\<lambda>K E c. Some (melee_effect_elemental K E c GF_ELEC True))
     | RBE_FIRE \<Rightarrow> Some (\<lambda>K E c. Some (melee_effect_elemental K E c GF_FIRE True))
     | RBE_COLD \<Rightarrow> Some (\<lambda>K E c. Some (melee_effect_elemental K E c GF_COLD True))
     | RBE_BLIND \<Rightarrow> Some (\<lambda>K E c. Some (melee_effect_timed E c TMD_BLIND (10 + e_randint1 E) False None))
     | RBE_CONFUSE \<Rightarrow> Some (\<lambda>K E c. Some (melee_effect_timed E c TMD_CONFUSED (3 + e_randint1 E) False None))
     | RBE_TERRIFY \<Rightarrow> Some (\<lambda>K E c. Some (melee_effect_timed E c TMD_AFRAID (3 + e_randint1 E) True
                                              (Some ''You stand your ground!'')))
     | RBE_PARALYZE \<Rightarrow> Some (\<lambda>K E c. Some (melee_effect_handler_paralyze E c))
     | RBE_LOSE_STR \<Rightarrow> Some (\<lambda>K E c. Some (melee_effect_stat E c A_STR))
     | RBE_LOSE_INT \<Rightarrow> Some (\<lambda>K E c. Some (melee_effect_stat E c A_INT))
     | RBE_LOSE_WIS \<Rightarrow> Some (\<lambda>K E c. Some (melee_effect_stat E c A_WIS))
     | RBE_LOSE_DEX \<Rightarrow> Some (\<lambda>K E c. Some (melee_effect_stat E c A_DEX))
     | RBE_LOSE_CON \<Rightarrow> Some (\<lambda>K E c. Some (melee_effect_stat E c A_CON))
     | RBE_LOSE_ALL \<Rightarrow> Some (\<lambda>K E c. Some (melee_effect_handler_lose_all E c))
     | RBE_SHATTER \<Rightarrow> Some (\<lambda>K E c. Some (melee_effect_handler_shatter E c))
     | RBE_EXP_10 \<Rightarrow> Some (\<lambda>K E c. Some (melee_effect_experience K E c 95 (e_exp_damroll E)))
     | RBE_EXP_20 \<Rightarrow> Some (\<lambda>K E c. Some (melee_effect_experience K E c 90 (e_exp_damroll E)))
     | RBE_EXP_40 \<Rightarrow> Some (\<lambda>K E c. Some (melee_effect_experience K E c 75 (e_exp_damroll E)))
     | RBE_EXP_80 \<Rightarrow> Some (\<lambda>K E c. Some (melee_effect_experience K E c 50 (e_exp_damroll E)))
     | RBE_HALLU \<Rightarrow> Some (\<lambda>K E c. Some (melee_effect_handler_hallucination E c))
     | RBE_OUT_OF_RANGE \<Rightarrow> None)"

subsection \<open>make_attack_normal\<close>

definition check_hit :: "blow_env \<Rightarrow> player \<Rightarrow> int \<Rightarrow> int \<Rightarrow> bool" where
  "check_hit E pl pow lvl = e_test_hit E (pow + lvl * 3) (ac pl + to_a pl)"

text \<open>The state the blow loop carries from one blow to the next.\<close>

record attack_state =
  a_p :: player
  a_m :: monster
  a_lore :: lore
  a_blinked :: bool
  a_events :: "event list"

definition cut_amount :: "int \<Rightarrow> int \<Rightarrow> int" where
  "cut_amount tmp roll =
    (if tmp = 0 then 0 else if tmp = 1 then roll else if tmp = 2 then roll + 5
     else if tmp = 3 then roll + 20 else if tmp = 4 then roll + 50
     else if tmp = 5 then roll + 100 else if tmp = 6 then 300 else 500)"

definition stun_amount :: "int \<Rightarrow> int \<Rightarrow> int" where
  "stun_amount tmp roll =
    (if tmp = 0 then 0 else if tmp = 1 then roll else if tmp = 2 then roll + 10
     else if tmp = 3 then roll + 20 else if tmp = 4 then roll + 30
     else if tmp = 5 then roll + 40 else if tmp = 6 then 100 else 200)"

text \<open>
  The part of one pass of the blow loop that follows the blow itself: the lore
  count and the test of the local \<^verbatim>\<open>do_break\<close>. The result says whether the loop
  goes on.
\<close>

definition blow_epilogue ::
  "constants \<Rightarrow> nat \<Rightarrow> bool \<Rightarrow> bool \<Rightarrow> int \<Rightarrow> bool \<Rightarrow> attack_state \<Rightarrow> attack_state \<times> bool" where
  "blow_epilogue K ap_cnt visible obvious damage do_break s =
    (let l = a_lore s;
         l' = (if visible \<and> (obvious \<or> damage \<noteq> 0 \<or> blows l ap_cnt > 10)
                 \<and> blows l ap_cnt < MAX_UCHAR K
               then l\<lparr>blows := (blows l)(ap_cnt := blows l ap_cnt + 1)\<rparr> else l)
     in (s\<lparr>a_lore := l'\<rparr>, \<not> do_break))"

text \<open>
  The handler call of the loop: \<^verbatim>\<open>melee_handler_for_blow_effect\<close>, then the
  handler, or the bell when there is none.
\<close>

definition run_handler :: "constants \<Rightarrow> blow_env \<Rightarrow> rbe \<Rightarrow> melee_ctx \<Rightarrow> handler_result" where
  "run_handler K E eff ctx =
    (case melee_handler_for_blow_effect eff of
       None \<Rightarrow> Some (ctx, [Ext ''bell'' []])
     | Some h \<Rightarrow> h K E ctx)"

text \<open>
  The cuts and stuns that follow the handler. \<^verbatim>\<open>monster_critical\<close> is not
  modelled: \<open>e_critical\<close> is the value it returns.
\<close>

definition cut_stun :: "constants \<Rightarrow> blow_env \<Rightarrow> int \<Rightarrow> event list" where
  "cut_stun K E meth =
    (let both = (monster_blow_method_cut K meth \<and> monster_blow_method_stun K meth);
         do_cut = (monster_blow_method_cut K meth \<and> \<not> (both \<and> e_roll_cutstun E < 50));
         do_stun = (monster_blow_method_stun K meth \<and> \<not> (both \<and> \<not> e_roll_cutstun E < 50));
         ev3 = (if do_cut \<and> cut_amount (e_critical E) (e_roll_k E) \<noteq> 0
                then [Player_inc_timed TMD_CUT (cut_amount (e_critical E) (e_roll_k E))]
                else []);
         ev4 = (if do_stun \<and> stun_amount (e_critical E) (e_roll_k E) \<noteq> 0
                then [Player_inc_timed TMD_STUN (stun_amount (e_critical E) (e_roll_k E))]
                else [])
     in ev3 @ ev4)"

text \<open>
  A blow that hits and is not repelled: the damage roll, the context, the
  handler, and what the code copies back from the context afterwards, which is
  \<^verbatim>\<open>obvious\<close>, \<^verbatim>\<open>blinked\<close> and \<^verbatim>\<open>damage\<close>. The local \<^verbatim>\<open>do_break\<close> is \<open>False\<close> when
  the context is built and is what the loop tests at its end. \<open>a\<close> is the total
  armour \<^verbatim>\<open>ac\<close>, \<open>rl\<close> the effective monster level \<^verbatim>\<open>rlev\<close>.
\<close>

definition blow_lands ::
  "constants \<Rightarrow> blow_env \<Rightarrow> int \<Rightarrow> int \<Rightarrow> nat \<Rightarrow> bool \<Rightarrow> attack_state
     \<Rightarrow> (attack_state \<times> bool) option" where
  "blow_lands K E a rl ap_cnt visible s =
    (let b = blow (race (a_m s)) ap_cnt;
         do_break = False;
         ev1 = (case e_action E of None \<Rightarrow> [] | Some act \<Rightarrow> [Msg ''%s %s'']);
         damage = (if d_dice b > 0 \<and> d_side b > 0 then e_damroll E else 0);
         ctx = \<lparr> c_p = a_p s, c_m_ptr = a_m s, c_rlev = rl, c_method = blow_method b,
                 c_ac = a, c_obvious = True, c_blinked = a_blinked s,
                 c_do_break = do_break, c_damage = damage \<rparr>
     in (case run_handler K E (effect b) ctx of
           None \<Rightarrow> None
         | Some (ctx', ev2) \<Rightarrow>
             Some (blow_epilogue K ap_cnt visible (c_obvious ctx') (c_damage ctx') do_break
                     (s\<lparr>a_p := c_p ctx', a_m := c_m_ptr ctx', a_blinked := c_blinked ctx',
                        a_events := a_events s @ ev1 @ ev2 @ cut_stun K E (blow_method b)\<rparr>))))"

text \<open>
  One pass of the loop over the blows of the race. In the branch of a miss the
  locals \<^verbatim>\<open>obvious\<close>, \<^verbatim>\<open>damage\<close> and \<^verbatim>\<open>do_break\<close> still hold \<open>False\<close>, \<open>0\<close> and
  \<open>False\<close>. A repelled blow goes to the next blow at once (\<^verbatim>\<open>continue\<close>).
\<close>

definition blow_body ::
  "constants \<Rightarrow> blow_env \<Rightarrow> int \<Rightarrow> int \<Rightarrow> nat \<Rightarrow> attack_state \<Rightarrow> (attack_state \<times> bool) option" where
  "blow_body K E a rl ap_cnt s =
    (let r = race (a_m s);
         eff = effect (blow r ap_cnt);
         meth = blow_method (blow r ap_cnt)
     in if meth = 0 then Some (s, False)
        else if e_leaving E then Some (s, False)
        else
          let visible = (ml (a_m s) \<or> rf_has (flags r) RF_HAS_LIGHT);
              pow = monster_blow_effect_power K eff;
              ev_hit = (if eff = RBE_NONE then [] else [Ext ''object_notice_on_defend'' []])
          in if eff = RBE_NONE \<or> check_hit E (a_p s) pow rl then
               let ev0 = ev_hit @ [Ext ''disturb'' [1, 0]];
                   protected = (timed (a_p s) TMD_PROTEVIL > 0);
                   l1 = (if protected \<and> ml (a_m s)
                         then (a_lore s)\<lparr>l_flags := insert RF_EVIL (l_flags (a_lore s))\<rparr>
                         else a_lore s)
               in if protected \<and> rf_has (flags r) RF_EVIL \<and> lev (a_p s) \<ge> rl
                     \<and> e_roll_protevil E + lev (a_p s) > 50
                  then Some (s\<lparr>a_lore := l1,
                                a_events := a_events s @ ev0 @ [Msg ''%s is repelled.'']\<rparr>, True)
                  else blow_lands K E a rl ap_cnt visible
                         (s\<lparr>a_lore := l1, a_events := a_events s @ ev0\<rparr>)
             else
               let ev = ev_hit @ (if ml (a_m s) \<and> monster_blow_method_miss K meth
                                  then [Ext ''disturb'' [1, 0], Msg ''%s misses you.''] else [])
               in Some (blow_epilogue K ap_cnt visible False 0 False
                          (s\<lparr>a_events := a_events s @ ev\<rparr>)))"

text \<open>The loop \<^verbatim>\<open>for (ap_cnt = 0; ap_cnt < MONSTER_BLOW_MAX; ap_cnt++)\<close>.\<close>

function blow_loop ::
  "constants \<Rightarrow> (nat \<Rightarrow> blow_env) \<Rightarrow> int \<Rightarrow> int \<Rightarrow> nat \<Rightarrow> attack_state \<Rightarrow> attack_state option" where
  "blow_loop K Es a rl ap_cnt s =
    (if ap_cnt < MONSTER_BLOW_MAX K then
       (case blow_body K (Es ap_cnt) a rl ap_cnt s of
          None \<Rightarrow> None
        | Some (s', go) \<Rightarrow> if go then blow_loop K Es a rl (ap_cnt + 1) s' else Some s')
     else Some s)"
  by pat_completeness auto
termination
  by (relation "measure (\<lambda>(K, Es, a, rl, ap_cnt, s). MONSTER_BLOW_MAX K - ap_cnt)") auto

text \<open>What follows the loop: the blink and the death count. \<open>dead\<close> is \<^verbatim>\<open>p->is_dead\<close>.\<close>

definition attack_finish :: "constants \<Rightarrow> bool \<Rightarrow> attack_state \<Rightarrow> attack_state" where
  "attack_finish K dead s =
    (let ev = (if a_blinked s
               then [Msg ''There is a puff of smoke!'', Teleport_away (MAX_SIGHT K * 2 + 5)]
               else []);
         l = a_lore s;
         l' = (if dead \<and> deaths l < MAX_SHORT K then l\<lparr>deaths := deaths l + 1\<rparr> else l)
     in s\<lparr>a_lore := l', a_events := a_events s @ ev\<rparr>)"

text \<open>
  \<^verbatim>\<open>make_attack_normal\<close>: the answer (\<open>False\<close> for a race that never attacks) and
  the state it leaves; \<open>None\<close> when a handler does not return.
\<close>

definition make_attack_normal ::
  "constants \<Rightarrow> (nat \<Rightarrow> blow_env) \<Rightarrow> bool \<Rightarrow> lore \<Rightarrow> monster \<Rightarrow> player
     \<Rightarrow> (bool \<times> attack_state) option" where
  "make_attack_normal K Es dead l m pl =
    (let s0 = \<lparr> a_p = pl, a_m = m, a_lore = l, a_blinked = False, a_events = [] \<rparr>
     in if rf_has (flags (race m)) RF_NEVER_BLOW then Some (False, s0)
        else
          let a = ac pl + to_a pl;
              rl = (if level (race m) \<ge> 1 then level (race m) else 1)
          in (case blow_loop K Es a rl 0 s0 of
                None \<Rightarrow> None
              | Some s \<Rightarrow> Some (True, attack_finish K dead s)))"

declare drain_charges_tries.simps [simp del]

declare blow_loop.simps [simp del]

subsection \<open>Vocabulary of the properties\<close>

text \<open>The objects a trace hands to \<^verbatim>\<open>monster_carry\<close>, in order.\<close>

fun carried :: "event list \<Rightarrow> object_type list" where
  "carried [] = []"
| "carried (Monster_carry ob # ev) = ob # carried ev"
| "carried (_ # ev) = carried ev"


text \<open>
  What the drain-charges handler keeps between a context and a later one: the
  monster's hit points stay within its maximum, the maximum and the kinds of the
  pack stay as they were, and a pack slot is either untouched or holds a
  non-negative charge count.
\<close>

definition drain_post :: "melee_ctx \<Rightarrow> melee_ctx \<Rightarrow> bool" where
  "drain_post c c' =
    (hp (c_m_ptr c') \<le> maxhp (c_m_ptr c')
     \<and> maxhp (c_m_ptr c') = maxhp (c_m_ptr c)
     \<and> (\<forall>i. kind (inventory (c_p c') i) = kind (inventory (c_p c) i)
            \<and> (inventory (c_p c') i = inventory (c_p c) i
                \<or> 0 \<le> pval (inventory (c_p c') i))))"

subsection \<open>Spells\<close>

datatype rst =
    RST_BOLT | RST_BALL | RST_BREATH | RST_ATTACK | RST_ANNOY | RST_HASTE | RST_HEAL
  | RST_TACTIC | RST_ESCAPE | RST_SUMMON














section \<open>Example inputs\<close>

text \<open>
  Concrete constants, races and monsters at which the theorems below are
  evaluated. The values of \<open>ex_K\<close> are those of the game's headers.
\<close>

definition ex_K :: constants where
  "ex_K = \<lparr> MAX_SIGHT = 20, MAX_RANGE = 20, MONSTER_FLOW_DEPTH = 32, MON_MULT_ADJ = 8,
     MAX_REPRO = 100, BREAK_GLYPH = 550, MAX_PVAL = 32767, MAX_UCHAR = 255,
     MAX_SHORT = 32767, INVEN_PACK = 23, FLAG_START = 1, RSF_MAX = 97,
     MIN_NONINNATE_SPELL = 33, RSF_HEAL = 70, RSF_HASTE = 69, RSF_TELE_TO = 75,
     RSF_DRAIN_MANA = 50, SM_IMM_MANA = 1, MONSTER_BLOW_MAX = 4, RBM_MAX = 25,
     INVEN_LIGHT = 25, MON_DRAIN_LIFE = 2,
     effect_powers = (\<lambda>e. if e = RBE_NONE then 0 else 60),
     blow_cuts = (\<lambda>_. False), blow_stuns = (\<lambda>_. False), blow_misses = (\<lambda>_. True),
     blow_physicals = (\<lambda>_. True), blow_messages = (\<lambda>_. 0),
     adj_dex_safe = (\<lambda>_. 0) \<rparr>"

definition ex_race :: monster_race where
  "ex_race = \<lparr> level = 5, aaf = 20, mexp = 10, freq_innate = 0, freq_spell = 0,
     flags = {}, spell_flags = {},
     blow = (\<lambda>_. \<lparr> blow_method = 0, effect = RBE_NONE, d_dice = 0, d_side = 0 \<rparr>) \<rparr>"

definition ex_monster :: monster where
  "ex_monster = \<lparr> race = ex_race, midx = 1, fy = 15, fx = 15, hp = 20, maxhp = 20,
     m_timed = (\<lambda>_. 0), cdis = 7, energy = 100, mflag = {}, ml = True,
     unaware = False, smart = 0, known_pflags = {} \<rparr>"

definition ex_object :: object_type where
  "ex_object = \<lparr> kind = None, tval = TV_OTHER, pval = 0, number = 0, artifact = False,
     origin = ORIGIN_NONE, timeout = 0 \<rparr>"

definition ex_player :: player where
  "ex_player = \<lparr> lev = 30, chp = 100, mhp = 100, au = 1000, exp = 0, py = 10, px = 10,
     timed = (\<lambda>_. 0), inventory = (\<lambda>_. ex_object), ac = 0, to_a = 0,
     stat_ind = (\<lambda>_. 0), skill_save = 0, health_who = 0, redraw = {}, notice = {},
     update = {} \<rparr>"

definition ex_env :: blow_env where
  "ex_env = \<lparr> e_leaving = False, e_test_hit = (\<lambda>_ _. True), e_roll_protevil = 0,
     e_action = Some ''hits you.'', e_damroll = 30, e_adjust_dam = 0, e_roll_save = 99,
     e_inc_timed = True, e_randint1 = 1, e_res_disen = False, e_apply_disenchant = True,
     e_dec_stat = (\<lambda>_. True), e_hold_life = False, e_roll_hold = 0, e_exp_damroll = 10,
     e_pick = (\<lambda>_. 3), e_roll_blink = 1, e_roll_gold25 = 7, e_roll_gold3000 = 1,
     e_gold_prep = ex_object\<lparr>tval := TV_GOLD\<rparr>, e_no_fuel = False, e_roll_fuel = 1,
     e_quake_py = 10, e_quake_px = 11, e_roll_cutstun = 0, e_critical = 0, e_roll_k = 1 \<rparr>"

definition ex_lore :: lore where
  "ex_lore = \<lparr> blows = (\<lambda>_. 0), deaths = 0, cast_innate = 0, cast_spell = 0, wake = 0,
     ignore = 0, l_flags = {}, l_spell_flags = {} \<rparr>"

text \<open>A wand of kind level 10 with five charges, in slot 3 of the pack.\<close>

definition ex_wand :: object_type where
  "ex_wand = ex_object\<lparr>kind := Some \<lparr>k_level = 10\<rparr>, tval := TV_WAND, pval := 5, number := 1\<rparr>"

definition ex_ctx :: melee_ctx where
  "ex_ctx = \<lparr> c_p = ex_player\<lparr>inventory := (\<lambda>i. if i = 3 then ex_wand else ex_object)\<rparr>,
     c_m_ptr = ex_monster\<lparr>hp := 15\<rparr>, c_rlev = 30, c_method = 1, c_ac = 0,
     c_obvious = True, c_blinked = False, c_do_break = False, c_damage = 30 \<rparr>"

text \<open>A monster whose first blow steals gold (1d4) and whose second blow hurts (1d8).\<close>

definition ex_thief :: monster where
  "ex_thief = ex_monster\<lparr>race := ex_race\<lparr>blow := (\<lambda>i.
      if i = 0 then \<lparr> blow_method = 1, effect = RBE_EAT_GOLD, d_dice = 1, d_side = 4 \<rparr>
      else if i = 1 then \<lparr> blow_method = 1, effect = RBE_HURT, d_dice = 1, d_side = 8 \<rparr>
      else \<lparr> blow_method = 0, effect = RBE_NONE, d_dice = 0, d_side = 0 \<rparr>)\<rparr>\<rparr>"

definition ex_theft :: attack_state where
  "ex_theft = \<lparr> a_p = ex_player, a_m = ex_thief, a_lore = ex_lore, a_blinked = False,
     a_events = [] \<rparr>"

text \<open>A monster whose first blow shatters (6d8) and whose second blow hurts (1d8).\<close>

definition ex_quaker :: monster where
  "ex_quaker = ex_monster\<lparr>race := ex_race\<lparr>blow := (\<lambda>i.
      if i = 0 then \<lparr> blow_method = 1, effect = RBE_SHATTER, d_dice = 6, d_side = 8 \<rparr>
      else if i = 1 then \<lparr> blow_method = 1, effect = RBE_HURT, d_dice = 1, d_side = 8 \<rparr>
      else \<lparr> blow_method = 0, effect = RBE_NONE, d_dice = 0, d_side = 0 \<rparr>)\<rparr>\<rparr>"



section \<open>Properties\<close>

subsection \<open>mon_will_run\<close>

lemma u16b_id: "0 \<le> x \<Longrightarrow> x < 65536 \<Longrightarrow> u16b x = x"
  by (simp add: u16b_def)

lemma u32b_id: "0 \<le> x \<Longrightarrow> x < 4294967296 \<Longrightarrow> u32b x = x"
  by (simp add: u32b_def)

text \<open>
  The two shortcuts of the code agree with the cross-multiplied comparison: a
  monster more than four levels above the player never satisfies it, a monster at
  least four levels below always does.
\<close>

lemma strong_monster_never_runs:
  fixes pl ml c P h M :: int
  assumes "pl + 4 < ml" "0 < c" "c \<le> P" "0 < h" "h \<le> M"
  shows "\<not> (pl * P + 4 * c) * M > (ml * M + 4 * h) * P"
proof -
  have PM: "0 < P * M" using assms by simp
  have 1: "c * M \<le> P * M" using assms by (simp add: mult_right_mono)
  have 2: "0 < h * P" using assms by simp
  have "(pl + 5) * (P * M) \<le> ml * (P * M)"
    using assms PM by (intro mult_right_mono) auto
  then have 3: "pl * (P * M) + 5 * (P * M) \<le> ml * (P * M)"
    by (simp add: algebra_simps)
  have "(pl * P + 4 * c) * M = pl * (P * M) + 4 * (c * M)" by (simp add: algebra_simps)
  moreover have "(ml * M + 4 * h) * P = ml * (P * M) + 4 * (h * P)" by (simp add: algebra_simps)
  ultimately show ?thesis using 1 2 3 PM by linarith
qed

lemma weak_monster_always_runs:
  fixes pl ml c P h M :: int
  assumes "ml + 4 \<le> pl" "0 < c" "c \<le> P" "0 < h" "h \<le> M"
  shows "(pl * P + 4 * c) * M > (ml * M + 4 * h) * P"
proof -
  have PM: "0 < P * M" using assms by simp
  have 1: "h * P \<le> M * P" using assms by (simp add: mult_right_mono)
  have 2: "0 < c * M" using assms by simp
  have "(ml + 4) * (P * M) \<le> pl * (P * M)"
    using assms PM by (intro mult_right_mono) auto
  then have 3: "ml * (P * M) + 4 * (P * M) \<le> pl * (P * M)"
    by (simp add: algebra_simps)
  have "(pl * P + 4 * c) * M = pl * (P * M) + 4 * (c * M)" by (simp add: algebra_simps)
  moreover have "(ml * M + 4 * h) * P = ml * (P * M) + 4 * (h * P)" by (simp add: algebra_simps)
  ultimately show ?thesis using 1 2 3 PM by (simp add: mult.commute)
qed

text \<open>
  C1, as stated, fails: with 20000 hit points on both sides the products
  \<^verbatim>\<open>p_val * m_mhp\<close> and \<^verbatim>\<open>m_val * p_mhp\<close> exceed \<open>2 ^ 32\<close> and the \<^verbatim>\<open>u32b\<close>
  comparison of the code answers "no" where the cross-multiplied comparison over
  the integers answers "yes". Both the player (20000 of 20000) and the monster
  (10000 of 20000) have \<open>0 < hp \<le> maxhp\<close>; both levels are 30.
\<close>

theorem mon_will_run_wraps:
  "0 < chp (ex_player\<lparr>chp := 20000, mhp := 20000\<rparr>)
   \<and> chp (ex_player\<lparr>chp := 20000, mhp := 20000\<rparr>) \<le> mhp (ex_player\<lparr>chp := 20000, mhp := 20000\<rparr>)
   \<and> 0 < hp (ex_monster\<lparr>hp := 10000, maxhp := 20000\<rparr>)
   \<and> hp (ex_monster\<lparr>hp := 10000, maxhp := 20000\<rparr>) \<le> maxhp (ex_monster\<lparr>hp := 10000, maxhp := 20000\<rparr>)
   \<and> mon_will_run ex_K (ex_player\<lparr>chp := 20000, mhp := 20000\<rparr>)
         (ex_monster\<lparr>hp := 10000, maxhp := 20000\<rparr>) = False
   \<and> will_run_spec ex_K (ex_player\<lparr>chp := 20000, mhp := 20000\<rparr>)
         (ex_monster\<lparr>hp := 10000, maxhp := 20000\<rparr>) = True"
  by (simp add: mon_will_run_def will_run_spec_def ex_K_def ex_monster_def ex_race_def
      ex_player_def u16b_def u32b_def Let_def)

text \<open>
  C1, amended: for every monster and player with \<open>0 < hp \<le> maxhp\<close>, a
  non-negative FEAR timer, levels and hit points that fit the \<^verbatim>\<open>u16b\<close> locals
  and cross products that fit \<^verbatim>\<open>u32b\<close>, \<open>mon_will_run\<close> answers no if
  \<open>cdis > MAX_SIGHT + 5\<close>, else yes if the FEAR timer is positive, else no if
  \<open>cdis \<le> 5\<close>, else yes exactly when \<open>p_val * m_mhp > m_val * p_mhp\<close> with
  \<open>m_lev = level + (midx AND 8) + 25\<close>, \<open>p_val = p_lev * p_mhp + 4 * p_chp\<close> and
  \<open>m_val = m_lev * m_mhp + 4 * m_chp\<close>. In particular the early exits for
  \<open>m_lev > p_lev + 4\<close> and \<open>m_lev + 4 \<le> p_lev\<close> agree with that comparison.
\<close>

theorem mon_will_run_no_overflow:
  assumes fear: "0 \<le> m_timed m MON_TMD_FEAR"
    and php: "0 < chp pl" "chp pl \<le> mhp pl" "mhp pl < 2 ^ 16"
    and mhp: "0 < hp m" "hp m \<le> maxhp m" "maxhp m < 2 ^ 16"
    and plev: "0 \<le> lev pl" "lev pl < 2 ^ 16"
    and mlev: "0 \<le> level (race m) + (midx m AND 8) + 25"
              "level (race m) + (midx m AND 8) + 25 < 2 ^ 16"
    and pfit: "(lev pl * mhp pl + 4 * chp pl) * maxhp m < 2 ^ 32"
    and mfit: "((level (race m) + (midx m AND 8) + 25) * maxhp m + 4 * hp m) * mhp pl < 2 ^ 32"
  shows "mon_will_run K pl m = will_run_spec K pl m"
proof -
  define m_lev where "m_lev = level (race m) + (midx m AND 8) + 25"
  define pv where "pv = lev pl * mhp pl + 4 * chp pl"
  define mv where "mv = m_lev * maxhp m + 4 * hp m"
  have pv0: "0 \<le> pv" using php plev by (simp add: pv_def)
  have mv0: "0 \<le> mv" using mhp mlev by (simp add: mv_def m_lev_def)
  have "pv * 1 \<le> pv * maxhp m" using pv0 mhp by (intro mult_left_mono) auto
  then have pv32: "pv < 4294967296" using pfit by (simp add: pv_def)
  have "mv * 1 \<le> mv * mhp pl" using mv0 php by (intro mult_left_mono) auto
  then have mv32: "mv < 4294967296" using mfit by (simp add: mv_def m_lev_def)
  have u: "u16b (lev pl) = lev pl" "u16b (chp pl) = chp pl" "u16b (mhp pl) = mhp pl"
      "u16b (hp m) = hp m" "u16b (maxhp m) = maxhp m" "u16b m_lev = m_lev"
    using php mhp plev mlev by (simp_all add: u16b_id m_lev_def)
  have v: "u32b pv = pv" "u32b mv = mv" "u32b (pv * maxhp m) = pv * maxhp m"
      "u32b (mv * mhp pl) = mv * mhp pl"
    using pv0 mv0 pv32 mv32 pfit mfit php mhp
    by (simp_all add: u32b_id pv_def mv_def m_lev_def)
  have body: "mon_will_run K pl m =
    (if cdis m > MAX_SIGHT K + 5 then False
     else if m_timed m MON_TMD_FEAR \<noteq> 0 then True
     else if cdis m \<le> 5 then False
     else if m_lev > lev pl + 4 then False
     else if m_lev + 4 \<le> lev pl then True
     else pv * maxhp m > mv * mhp pl)"
    unfolding mon_will_run_def Let_def m_lev_def [symmetric] u push_bit_eq_mult
    using v by (simp add: pv_def mv_def mult.commute)
  have early1: "m_lev > lev pl + 4 \<Longrightarrow> \<not> pv * maxhp m > mv * mhp pl"
    unfolding pv_def mv_def
    using strong_monster_never_runs [of "lev pl" m_lev "chp pl" "mhp pl" "hp m" "maxhp m"] php mhp
    by simp
  have early2: "m_lev + 4 \<le> lev pl \<Longrightarrow> pv * maxhp m > mv * mhp pl"
    unfolding pv_def mv_def
    using weak_monster_always_runs [of m_lev "lev pl" "chp pl" "mhp pl" "hp m" "maxhp m"] php mhp
    by simp
  have "will_run_spec K pl m =
    (if cdis m > MAX_SIGHT K + 5 then False
     else if m_timed m MON_TMD_FEAR \<noteq> 0 then True
     else if cdis m \<le> 5 then False
     else pv * maxhp m > mv * mhp pl)"
    unfolding will_run_spec_def Let_def pv_def mv_def m_lev_def using fear by auto
  with body early1 early2 show ?thesis by auto
qed

text \<open>
  A level-30 player with 100 of 100 hit points and a level-5 monster (so
  \<open>m_lev = 30\<close>) with 10 of 20 hit points at distance 7: the final comparison is
  reached, \<open>3400 * 20 > 640 * 100\<close>, and the monster runs.
\<close>

theorem mon_will_run_no_overflow_witness:
  "mon_will_run ex_K ex_player (ex_monster\<lparr>hp := 10\<rparr>)
     = will_run_spec ex_K ex_player (ex_monster\<lparr>hp := 10\<rparr>)
   \<and> will_run_spec ex_K ex_player (ex_monster\<lparr>hp := 10\<rparr>) = True"
  using mon_will_run_no_overflow [of "ex_monster\<lparr>hp := 10\<rparr>" ex_player ex_K]
  by (simp add: will_run_spec_def ex_K_def ex_monster_def ex_race_def ex_player_def)

subsection \<open>The drain-charges handler\<close>

lemma drain_post_refl: "hp (c_m_ptr c) \<le> maxhp (c_m_ptr c) \<Longrightarrow> drain_post c c"
  by (simp add: drain_post_def)

lemma drain_post_trans: "drain_post c c1 \<Longrightarrow> drain_post c1 c2 \<Longrightarrow> drain_post c c2"
  unfolding drain_post_def by (metis)

text \<open>One round of the search loop, for a slot that holds an object.\<close>

lemma drain_charges_round:
  assumes "tries < 10" "kind (inventory (c_p c) (e_pick E tries)) = Some k"
    and "hp (c_m_ptr c) \<le> maxhp (c_m_ptr c)"
  obtains (trap) "k_level k + 2 = 0" "drain_charges_tries E tries unpower c ev = None"
    | (drained) c1 where "drain_post c c1"
        "drain_charges_tries E tries unpower c ev
           = Some (c1, ev @ [Msg ''Energy drains from your pack!''])"
    | (again) c1 u where "drain_post c c1"
        "drain_charges_tries E tries unpower c ev = drain_charges_tries E (Suc tries) u c1 ev"
proof -
  define ob where "ob = inventory (c_p c) (e_pick E tries)"
  define charged where "charged = ((tval ob = TV_STAFF \<or> tval ob = TV_WAND) \<and> pval ob \<noteq> 0)"
  show thesis
  proof (cases "charged \<and> k_level k + 2 = 0")
    case True
    then have "drain_charges_tries E tries unpower c ev = None"
      using assms(1,2) drain_charges_tries.simps [of E tries unpower c ev]
      unfolding charged_def ob_def by (simp add: Let_def)
    with True show thesis by (intro trap) simp_all
  next
    case False
    define unpower' where
      "unpower' = (if charged then c_div (c_rlev c) (k_level k + 2) + 1 else unpower)"
    define c' where
      "c' = (if charged
             then c\<lparr>c_p := (c_p c)\<lparr>inventory :=
                    (inventory (c_p c))(e_pick E tries := ob\<lparr>pval := max (pval ob - unpower') 0\<rparr>)\<rparr>\<rparr>
             else c)"
    have step: "drain_post c c'"
      using assms(3) by (auto simp: drain_post_def c'_def ob_def)
    show thesis
    proof (cases "unpower' = 0")
      case True
      have "drain_charges_tries E tries unpower c ev
              = drain_charges_tries E (Suc tries) unpower' c' ev"
        using assms(1,2) False True drain_charges_tries.simps [of E tries unpower c ev]
        unfolding unpower'_def c'_def charged_def ob_def
        by (auto simp add: Let_def)
      with step show thesis by (rule again)
    next
      case nz: False
      define mon where "mon = c_m_ptr c'"
      define heal where "heal = min (c_rlev c' * unpower') (maxhp mon - hp mon)"
      define pl' where
        "pl' = (c_p c')\<lparr>redraw := (if health_who (c_p c') = midx mon
                                    then insert PR_HEALTH (redraw (c_p c'))
                                    else redraw (c_p c')) \<union> {PR_INVEN},
                        notice := notice (c_p c') \<union> {PN_COMBINE, PN_REORDER}\<rparr>"
      define c2 where
        "c2 = c'\<lparr>c_obvious := True, c_m_ptr := mon\<lparr>hp := hp mon + heal\<rparr>, c_p := pl'\<rparr>"
      have r: "drain_charges_tries E tries unpower c ev
              = Some (c2, ev @ [Msg ''Energy drains from your pack!''])"
        using assms(1,2) False nz drain_charges_tries.simps [of E tries unpower c ev]
        unfolding c2_def pl'_def heal_def mon_def unpower'_def c'_def charged_def ob_def
        by (auto simp add: Let_def)
      have "drain_post c' c2"
        using step by (auto simp: drain_post_def c2_def pl'_def heal_def mon_def)
      with step have "drain_post c c2" by (rule drain_post_trans)
      then show thesis using r by (rule drained)
    qed
  qed
qed

lemma drain_charges_tries_post:
  assumes "drain_charges_tries E tries unpower c ev = Some (c', ev')"
    and "hp (c_m_ptr c) \<le> maxhp (c_m_ptr c)"
  shows "drain_post c c'"
  using assms
proof (induction "10 - tries" arbitrary: tries unpower c ev)
  case 0
  then show ?case
    using drain_charges_tries.simps [of E tries unpower c ev] by (simp add: drain_post_refl)
next
  case (Suc n)
  then have lt: "tries < 10" and n: "n = 10 - Suc tries" by auto
  show ?case
  proof (cases "kind (inventory (c_p c) (e_pick E tries))")
    case None
    then have "drain_charges_tries E (Suc tries) unpower c ev = Some (c', ev')"
      using lt Suc.prems(1) drain_charges_tries.simps [of E tries unpower c ev]
      by (simp add: Let_def)
    from Suc.hyps(1) [OF n this Suc.prems(2)] show ?thesis .
  next
    case (Some k)
    from lt Some Suc.prems(2) show ?thesis
    proof (cases rule: drain_charges_round [where unpower = unpower and ev = ev])
      case trap
      with Suc.prems(1) show ?thesis by simp
    next
      case (drained c1)
      with Suc.prems(1) show ?thesis by simp
    next
      case (again c1 u)
      then have "drain_charges_tries E (Suc tries) u c1 ev = Some (c', ev')"
        using Suc.prems(1) by simp
      moreover have "hp (c_m_ptr c1) \<le> maxhp (c_m_ptr c1)"
        using again(1) by (simp add: drain_post_def)
      ultimately have "drain_post c1 c'" by (rule Suc.hyps(1) [OF n])
      with again(1) show ?thesis by (rule drain_post_trans)
    qed
  qed
qed

lemma drain_charges_tries_returns:
  assumes "hp (c_m_ptr c) \<le> maxhp (c_m_ptr c)"
    and "\<forall>i k. kind (inventory (c_p c) i) = Some k \<longrightarrow> k_level k + 2 \<noteq> 0"
  shows "\<exists>r. drain_charges_tries E tries unpower c ev = Some r"
  using assms
proof (induction "10 - tries" arbitrary: tries unpower c ev)
  case 0
  then show ?case
    using drain_charges_tries.simps [of E tries unpower c ev] by simp
next
  case (Suc n)
  then have lt: "tries < 10" and n: "n = 10 - Suc tries" by auto
  show ?case
  proof (cases "kind (inventory (c_p c) (e_pick E tries))")
    case None
    then have "drain_charges_tries E tries unpower c ev
                 = drain_charges_tries E (Suc tries) unpower c ev"
      using lt drain_charges_tries.simps [of E tries unpower c ev]
      by (simp add: Let_def)
    with Suc.hyps(1) [OF n Suc.prems] show ?thesis by simp
  next
    case (Some k)
    have nz: "k_level k + 2 \<noteq> 0" using Suc.prems(2) Some by blast
    from lt Some Suc.prems(1) show ?thesis
    proof (cases rule: drain_charges_round [where unpower = unpower and ev = ev])
      case trap
      with nz show ?thesis by simp
    next
      case (drained c1)
      then show ?thesis by simp
    next
      case (again c1 u)
      have 1: "hp (c_m_ptr c1) \<le> maxhp (c_m_ptr c1)"
        using again(1) by (simp add: drain_post_def)
      have 2: "\<forall>i k. kind (inventory (c_p c1) i) = Some k \<longrightarrow> k_level k + 2 \<noteq> 0"
        using again(1) Suc.prems(2) by (simp add: drain_post_def)
      from Suc.hyps(1) [OF n 1 2, of u ev] again(2) show ?thesis by simp
    qed
  qed
qed

text \<open>
  C10: the UN_POWER handler keeps the monster's hit points within its maximum.
  For every call with \<open>hp \<le> maxhp\<close> beforehand, whenever the handler returns,
  \<open>hp \<le> maxhp\<close> holds afterwards with \<open>maxhp\<close> unchanged (the heal is cut to
  \<open>maxhp - hp\<close>), and every pack slot is either untouched or left with a charge
  count that is not negative. The handler does return unless the divisor
  \<^verbatim>\<open>kind->level + 2\<close> of an object in the pack is zero.
\<close>

theorem drain_charges_keeps_hp_bound:
  assumes "hp (c_m_ptr c) \<le> maxhp (c_m_ptr c)"
  shows "(\<forall>c' ev. melee_effect_handler_drain_charges E c = Some (c', ev) \<longrightarrow>
            hp (c_m_ptr c') \<le> maxhp (c_m_ptr c')
            \<and> maxhp (c_m_ptr c') = maxhp (c_m_ptr c)
            \<and> (\<forall>i. inventory (c_p c') i = inventory (c_p c) i
                    \<or> 0 \<le> pval (inventory (c_p c') i)))
       \<and> ((\<forall>i k. kind (inventory (c_p c) i) = Some k \<longrightarrow> k_level k + 2 \<noteq> 0) \<longrightarrow>
            (\<exists>r. melee_effect_handler_drain_charges E c = Some r))"
proof (intro conjI allI impI)
  fix c' ev
  assume "melee_effect_handler_drain_charges E c = Some (c', ev)"
  then have p: "drain_post c c'"
    unfolding melee_effect_handler_drain_charges_def
    using assms by (rule drain_charges_tries_post)
  show "hp (c_m_ptr c') \<le> maxhp (c_m_ptr c')" "maxhp (c_m_ptr c') = maxhp (c_m_ptr c)"
    "\<And>i. inventory (c_p c') i = inventory (c_p c) i \<or> 0 \<le> pval (inventory (c_p c') i)"
    using p by (simp_all add: drain_post_def)
next
  assume "\<forall>i k. kind (inventory (c_p c) i) = Some k \<longrightarrow> k_level k + 2 \<noteq> 0"
  with assms show "\<exists>r. melee_effect_handler_drain_charges E c = Some r"
    unfolding melee_effect_handler_drain_charges_def
    by (rule drain_charges_tries_returns)
qed

text \<open>
  A level-30 attacker with 15 of 20 hit points drains the wand of \<open>ex_ctx\<close>:
  \<open>unpower = 30 / 12 + 1 = 3\<close>, the wand keeps 2 charges, and the heal of 90 is
  cut to the 5 points the monster lacks.
\<close>

theorem drain_charges_keeps_hp_bound_witness:
  "\<exists>c' ev. melee_effect_handler_drain_charges ex_env ex_ctx = Some (c', ev)
      \<and> hp (c_m_ptr c') = 20 \<and> hp (c_m_ptr c') \<le> maxhp (c_m_ptr c')
      \<and> pval (inventory (c_p c') 3) = 2
      \<and> (\<forall>i. inventory (c_p c') i = inventory (c_p ex_ctx) i
               \<or> 0 \<le> pval (inventory (c_p c') i))"
  using drain_charges_keeps_hp_bound [of ex_ctx ex_env]
  by (auto simp add: melee_effect_handler_drain_charges_def drain_charges_tries.simps ex_env_def
      ex_ctx_def ex_wand_def ex_object_def ex_player_def ex_monster_def ex_race_def Let_def c_div_def)

subsection \<open>The gold thief\<close>


lemma carried_map_carry: "carried (map Monster_carry obs) = obs"
  by (induction obs) simp_all






lemma blow_epilogue_blinked: "a_blinked (fst (blow_epilogue K ap_cnt v ob d br s)) = a_blinked s"
  by (simp add: blow_epilogue_def Let_def)










subsection \<open>The shatter handler\<close>

text \<open>A rolled damage of 30 stays above 23 exactly up to a total armour of 93.\<close>

lemma adjust_30: "adjust_dam_armor 30 a > 23 \<longleftrightarrow> a \<le> 93"
proof (cases "a < 0")
  case True
  then show ?thesis by (simp add: adjust_dam_armor_def c_div_def)
next
  case False
  define m where "m = (if a < 240 then a else 240)"
  have m0: "0 \<le> m" and m93: "m \<le> 93 \<longleftrightarrow> a \<le> 93" using False by (auto simp: m_def)
  have adj: "adjust_dam_armor 30 a = 30 - (30 * m) div 400"
    using m0 by (simp add: adjust_dam_armor_def c_div_def m_def)
  show ?thesis
  proof (cases "m \<le> 93")
    case True
    then have "(30 * m) div 400 \<le> 2790 div 400" by (intro zdiv_mono1) auto
    then show ?thesis using True adj m93 by simp
  next
    case False
    then have "2820 div 400 \<le> (30 * m) div 400" by (intro zdiv_mono1) auto
    then show ?thesis using False adj m93 by simp
  qed
qed

text \<open>
  C5, as stated, fails: a shatter blow of rolled damage 30 against a total armour
  of 100 is reduced to 23, the damage is applied, and no earthquake is invoked.
\<close>

theorem shatter_without_quake:
  "c_damage (ex_ctx\<lparr>c_ac := 100\<rparr>) = 30
   \<and> melee_effect_handler_shatter ex_env (ex_ctx\<lparr>c_ac := 100\<rparr>)
       = (ex_ctx\<lparr>c_ac := 100, c_damage := 23\<rparr>, [Take_hit 23])"
  by (simp add: melee_effect_handler_shatter_def adjust_dam_armor_def c_div_def ex_ctx_def Let_def)

text \<open>
  C5, amended: for every blow with effect SHATTER that hits, the damage is
  reduced by the armour adjustment and applied; a radius-8 earthquake centred on
  the attacking monster is invoked exactly when the reduced damage exceeds 23
  (for a rolled damage of 30: exactly when the total armour is at most 93); and
  when the earthquake was invoked and the player's position changed during it,
  the handler sets \<^verbatim>\<open>do_break\<close> in its context. What the blow loop does with that
  flag is not part of the amended claim.
\<close>

theorem shatter_quake_needs_damage:
  "melee_effect_handler_shatter E c = (c', ev) \<Longrightarrow>
     c_damage c' = adjust_dam_armor (c_damage c) (c_ac c)
     \<and> c_obvious c'
     \<and> ev = Take_hit (c_damage c')
             # (if c_damage c' > 23 then [Earthquake (fy (c_m_ptr c)) (fx (c_m_ptr c)) 8] else [])
     \<and> (c_damage c = 30 \<longrightarrow> (Earthquake (fy (c_m_ptr c)) (fx (c_m_ptr c)) 8 \<in> set ev
                              \<longleftrightarrow> c_ac c \<le> 93))
     \<and> c_do_break c' = (c_do_break c \<or> (c_damage c' > 23
            \<and> (e_quake_px E \<noteq> px (c_p c) \<or> e_quake_py E \<noteq> py (c_p c))))"
  using adjust_30 [of "c_ac c"]
  by (auto simp: melee_effect_handler_shatter_def Let_def split: if_splits)

text \<open>
  The context of \<open>ex_ctx\<close> (rolled damage 30, armour 0): the earthquake is
  invoked at the monster's grid \<open>(15, 15)\<close>, it moves the player from
  \<open>(10, 10)\<close> to \<open>(10, 11)\<close>, and the handler sets \<^verbatim>\<open>do_break\<close>.
\<close>

theorem shatter_quake_needs_damage_witness:
  "melee_effect_handler_shatter ex_env ex_ctx
     = (ex_ctx\<lparr>c_p := (c_p ex_ctx)\<lparr>py := 10, px := 11\<rparr>, c_do_break := True\<rparr>,
        [Take_hit 30, Earthquake 15 15 8])
   \<and> c_do_break (fst (melee_effect_handler_shatter ex_env ex_ctx))"
  using shatter_quake_needs_damage [of ex_env ex_ctx
      "ex_ctx\<lparr>c_p := (c_p ex_ctx)\<lparr>py := 10, px := 11\<rparr>, c_do_break := True\<rparr>"
      "[Take_hit 30, Earthquake 15 15 8]"]
  by (simp add: melee_effect_handler_shatter_def adjust_dam_armor_def c_div_def ex_ctx_def
      ex_env_def ex_player_def ex_monster_def Let_def)

text \<open>
  The loop of \<^verbatim>\<open>make_attack_normal\<close> copies \<^verbatim>\<open>obvious\<close>, \<^verbatim>\<open>blinked\<close> and \<^verbatim>\<open>damage\<close>
  back from the context, not \<^verbatim>\<open>do_break\<close>: its own \<^verbatim>\<open>do_break\<close> is still \<open>False\<close>
  at the test \<^verbatim>\<open>if (do_break) break;\<close>. So a blow that is dealt (the method is
  not 0 and the player is not leaving) never ends the loop, whatever its handler
  put into the context.
\<close>

lemma blow_lands_goes_on:
  "blow_lands K E a rl ap_cnt visible s = Some (s1, go) \<Longrightarrow> go"
  unfolding blow_lands_def Let_def
  by (auto split: option.splits simp: blow_epilogue_def Let_def)

theorem blow_loop_ignores_do_break:
  assumes "blow_body K E a rl ap_cnt s = Some (s1, go)"
    and "blow_method (blow (race (a_m s)) ap_cnt) \<noteq> 0" "\<not> e_leaving E"
  shows "go"
  using assms unfolding blow_body_def Let_def
  by (auto split: if_splits simp: blow_epilogue_def Let_def dest: blow_lands_goes_on)

text \<open>
  The shatter blow of \<open>ex_quaker\<close> moves the player from column 10 to column 11,
  and the loop goes on.
\<close>

theorem blow_loop_ignores_do_break_witness:
  "\<exists>s1. blow_body ex_K ex_env 0 5 0 (ex_theft\<lparr>a_m := ex_quaker\<rparr>) = Some (s1, True)
      \<and> px (a_p s1) = 11 \<and> px (a_p (ex_theft\<lparr>a_m := ex_quaker\<rparr>)) = 10"
  using blow_loop_ignores_do_break [of ex_K ex_env 0 5 0 "ex_theft\<lparr>a_m := ex_quaker\<rparr>"]
  by (simp add: blow_body_def blow_lands_def run_handler_def melee_handler_for_blow_effect_def
      melee_effect_handler_shatter_def adjust_dam_armor_def blow_epilogue_def cut_stun_def
      check_hit_def monster_blow_effect_power_def monster_blow_method_cut_def
      monster_blow_method_stun_def rf_has_def c_div_def Let_def
      ex_theft_def ex_quaker_def ex_lore_def ex_env_def ex_K_def ex_player_def ex_monster_def
      ex_race_def ex_object_def)

text \<open>
  The whole attack of \<open>ex_quaker\<close>: after the earthquake has displaced the
  player, the second blow of the race still fires (the second \<open>Take_hit\<close>).
\<close>

lemma shatter_then_next_blow:
  "map_option (\<lambda>(r, s). (r, a_events s, px (a_p s)))
     (make_attack_normal ex_K (\<lambda>_. ex_env) False ex_lore ex_quaker ex_player)
   = Some (True,
       [Ext ''object_notice_on_defend'' [], Ext ''disturb'' [1, 0], Msg ''%s %s'',
        Take_hit 30, Earthquake 15 15 8,
        Ext ''object_notice_on_defend'' [], Ext ''disturb'' [1, 0], Msg ''%s %s'',
        Take_hit 30], 11)"
  by (simp add: make_attack_normal_def blow_loop.simps attack_finish_def
      blow_body_def blow_lands_def run_handler_def melee_handler_for_blow_effect_def
      melee_effect_handler_shatter_def melee_effect_handler_hurt_def
      adjust_dam_armor_def blow_epilogue_def cut_stun_def
      check_hit_def monster_blow_effect_power_def monster_blow_method_cut_def
      monster_blow_method_stun_def rf_has_def c_div_def Let_def
      ex_quaker_def ex_lore_def ex_env_def ex_K_def ex_player_def ex_monster_def
      ex_race_def ex_object_def)

subsection \<open>Spell failure\<close>









subsection \<open>The summon footprint\<close>







end
